theory Spec2Isabelle
  imports Complex_Main "HOL-Library.Word" "HOL-Library.Signed_Division"
begin

unbundle bit_operations_syntax

section \<open>The DDS sine generator of dds\_sin.ino\<close>

text \<open>
  The program runs on an 8-bit AVR (it includes \<open>avr/io.h\<close>): \<open>int\<close> has 16 bits and
  \<open>long\<close> has 32 bits there. \<open>uint8_t\<close> is \<open>8 word\<close>, \<open>uint16_t\<close> is \<open>16 word\<close> and
  \<open>long\<close> is \<open>32 word\<close> read through \<open>sint\<close>.
\<close>

subsection \<open>Configuration macros\<close>

text \<open>\<open>#define F_DDS_OUT 2500\<close> and \<open>#define F_UPDATE 50000\<close>. In the one expression
  that uses \<open>F_DDS_OUT\<close> it meets the \<open>long\<close> constant 65536, so both macros are values
  of type \<open>long\<close> there.\<close>

definition F_DDS_OUT :: "32 word" where
  "F_DDS_OUT = 2500"

definition F_UPDATE :: "32 word" where
  "F_UPDATE = 50000"

text \<open>
  What \<open>avr/io.h\<close> and the build supply and the repository does not: the CPU clock
  \<open>F_CPU\<close> and the bit numbers of the register bits that \<open>main\<close> names. They are a
  parameter of \<open>main\<close>.
\<close>

record avr_io =
  F_CPU :: "32 word"
  PORTD6 :: nat
  PORTD5 :: nat
  WGM00 :: nat
  WGM01 :: nat
  COM0A1 :: nat
  CS00 :: nat
  WGM21 :: nat
  CS21 :: nat
  OCIE2A :: nat

text \<open>\<open>_BV(bit)\<close> is \<open>1 << bit\<close>; every use is stored into an 8-bit register.\<close>

definition BV :: "nat \<Rightarrow> 8 word" where
  "BV b = push_bit b 1"

subsection \<open>The sine table\<close>

text \<open>The initialiser of \<open>uint8_t SINE_TABLE[]\<close>, row by row as in the source.\<close>

definition SINE_TABLE_init :: "8 word list" where
  "SINE_TABLE_init =
  [128, 131, 134, 137, 140, 143, 146, 149, 152, 156, 159, 162, 165, 168, 171, 174,
   176, 179, 182, 185, 188, 191, 193, 196, 199, 201, 204, 206, 209, 211, 213, 216,
   218, 220, 222, 224, 226, 228, 230, 232, 234, 236, 237, 239, 240, 242, 243, 245,
   246, 247, 248, 249, 250, 251, 252, 252, 253, 254, 254, 255, 255, 255, 255, 255,
   255, 255, 255, 255, 255, 255, 254, 254, 253, 252, 252, 251, 250, 249, 248, 247,
   246, 245, 243, 242, 240, 239, 237, 236, 234, 232, 230, 228, 226, 224, 222, 220,
   218, 216, 213, 211, 209, 206, 204, 201, 199, 196, 193, 191, 188, 185, 182, 179,
   176, 174, 171, 168, 165, 162, 159, 156, 152, 149, 146, 143, 140, 137, 134, 131,
   127, 124, 121, 118, 115, 112, 109, 106, 103, 99, 96, 93, 90, 87, 84, 81,
   79, 76, 73, 70, 67, 64, 62, 59, 56, 54, 51, 49, 46, 44, 42, 39,
   37, 35, 33, 31, 29, 27, 25, 23, 21, 19, 18, 16, 15, 13, 12, 10,
   9, 8, 7, 6, 5, 4, 3, 3, 2, 1, 1, 0, 0, 0, 0, 0,
   0, 0, 0, 0, 0, 0, 1, 1, 2, 3, 3, 4, 5, 6, 7, 8,
   9, 10, 12, 13, 15, 16, 18, 19, 21, 23, 25, 27, 29, 31, 33, 35,
   37, 39, 42, 44, 46, 49, 51, 54, 56, 59, 62, 64, 67, 70, 73, 76,
   79, 81, 84, 87, 90, 93, 96, 99, 103, 106, 109, 112, 115, 118, 121, 124]"

subsection \<open>The machine state\<close>

text \<open>
  The three globals of the program (the table lives in RAM and is not \<open>const\<close>, so it is
  part of the mutable state), the peripheral registers that the program writes, and the
  global interrupt enable flag that \<open>sei()\<close> sets.
\<close>

record dds_state =
  SINE_TABLE :: "8 word list"
  phaseReg :: "16 word"
  phaseInc :: "16 word"
  DDRD :: "8 word"
  TCCR0A :: "8 word"
  TCCR0B :: "8 word"
  OCR0A :: "8 word"
  TCCR2A :: "8 word"
  TCCR2B :: "8 word"
  OCR2A :: "8 word"
  TIMSK2 :: "8 word"
  SREG_I :: bool

text \<open>
  The state in which \<open>main\<close> is entered: the table holds its initialiser, the other two
  globals are zero-initialised statics, and the registers and the interrupt flag have
  their reset value 0.
\<close>

definition startup_state :: dds_state where
  "startup_state =
    \<lparr>SINE_TABLE = SINE_TABLE_init, phaseReg = 0, phaseInc = 0, DDRD = 0, TCCR0A = 0,
     TCCR0B = 0, OCR0A = 0, TCCR2A = 0, TCCR2B = 0, OCR2A = 0, TIMSK2 = 0,
     SREG_I = False\<rparr>"

text \<open>The ATmega328P at 16 MHz (the source's comment \<open>= 39\<close> on \<open>OCR2A\<close> is this
  clock), as a concrete value of the parameter for evaluating \<open>main\<close>.\<close>

definition atmega328p_16MHz :: avr_io where
  "atmega328p_16MHz =
    \<lparr>F_CPU = 16000000, PORTD6 = 6, PORTD5 = 5, WGM00 = 0, WGM01 = 1, COM0A1 = 7,
     CS00 = 0, WGM21 = 1, CS21 = 1, OCIE2A = 1\<rparr>"

subsection \<open>Arithmetic of type long\<close>

text \<open>
  C's \<open>/\<close> on \<open>long\<close> truncates towards zero (\<open>sdiv\<close> on \<open>int\<close>). The product of two
  \<open>long\<close> values is the word product: where the mathematical product does not fit 32
  bits the C standard leaves the result undefined and avr-gcc folds the constant with
  two's complement wrap-around, which is what \<open>*\<close> on \<open>32 word\<close> does. Division by
  zero is undefined in C, while \<open>sdiv\<close> gives 0: that value stands for nothing in
  the program, and every claim below about a quotient by the tick rate either assumes
  a positive tick rate or is about the 50000 of the source.
\<close>

definition long_div :: "32 word \<Rightarrow> 32 word \<Rightarrow> 32 word" where
  "long_div a b = word_of_int (sint a sdiv sint b)"

text \<open>\<open>F_DDS_OUT * 65536 / F_UPDATE\<close>, stored into the \<open>uint16_t phaseInc\<close> (line 101),
  for any values of the two macros.\<close>

definition compute_phaseInc :: "32 word \<Rightarrow> 32 word \<Rightarrow> 16 word" where
  "compute_phaseInc f_dds_out f_update = ucast (long_div (f_dds_out * 65536) f_update)"

subsection \<open>The interrupt service routine\<close>

text \<open>
  \<open>ISR(TIMER2_COMPA_vect)\<close>, lines 65 to 74. The routine returns nothing; the model
  returns the state it leaves behind. Reading \<open>SINE_TABLE[i]\<close> outside the array is
  undefined in C: that is the result \<open>None\<close>. \<open>table_index\<close> is the expression
  \<open>(uint8_t)(phaseReg >> 8)\<close> of line 70.
\<close>

definition table_index :: "16 word \<Rightarrow> 8 word" where
  "table_index p = ucast (drop_bit 8 p)"

definition ISR_TIMER2_COMPA :: "dds_state \<Rightarrow> dds_state option" where
  "ISR_TIMER2_COMPA s =
    (let s1 = s\<lparr>phaseReg := phaseReg s + phaseInc s\<rparr>;
         i = table_index (phaseReg s1)
     in if unat i < length (SINE_TABLE s1)
        then Some (s1\<lparr>OCR0A := SINE_TABLE s1 ! unat i\<rparr>)
        else None)"

subsection \<open>main\<close>

text \<open>
  Lines 81 to 104 of \<open>main\<close>, for any values of the two frequency macros: the state in
  which the idle loop \<open>while (1) {}\<close> is entered. The loop body is empty, so from there
  on the state changes only when the timer interrupt runs the service routine.
\<close>

definition main_with :: "avr_io \<Rightarrow> 32 word \<Rightarrow> 32 word \<Rightarrow> dds_state \<Rightarrow> dds_state" where
  "main_with io f_dds_out f_update s =
    (let s = s\<lparr>DDRD := DDRD s OR (BV (PORTD6 io) OR BV (PORTD5 io))\<rparr>;
         s = s\<lparr>TCCR0A := BV (WGM00 io) OR BV (WGM01 io) OR BV (COM0A1 io)\<rparr>;
         s = s\<lparr>TCCR0B := BV (CS00 io)\<rparr>;
         s = s\<lparr>OCR0A := 0\<rparr>;
         s = s\<lparr>TCCR2A := BV (WGM21 io)\<rparr>;
         s = s\<lparr>TCCR2B := BV (CS21 io)\<rparr>;
         s = s\<lparr>OCR2A := ucast (long_div (long_div (F_CPU io) 8) f_update - 1)\<rparr>;
         s = s\<lparr>TIMSK2 := BV (OCIE2A io)\<rparr>;
         s = s\<lparr>phaseReg := 0\<rparr>;
         s = s\<lparr>phaseInc := compute_phaseInc f_dds_out f_update\<rparr>;
         s = s\<lparr>SREG_I := True\<rparr>
     in s)"

text \<open>\<open>main\<close> with the macros as the source defines them.\<close>

definition main :: "avr_io \<Rightarrow> dds_state \<Rightarrow> dds_state" where
  "main io s = main_with io F_DDS_OUT F_UPDATE s"

text \<open>The state after \<open>n\<close> timer interrupts have been served in the idle loop.\<close>

fun ticks :: "nat \<Rightarrow> dds_state \<Rightarrow> dds_state option" where
  "ticks 0 s = Some s"
| "ticks (Suc n) s =
     (case ISR_TIMER2_COMPA s of None \<Rightarrow> None | Some s' \<Rightarrow> ticks n s')"

section \<open>Auxiliary facts\<close>

subsection \<open>The increment computation\<close>

lemma sint_mul_65536:
  fixes f :: "32 word"
  assumes "0 \<le> sint f" "sint f < 32768"
  shows "sint (f * 65536) = sint f * 65536"
proof -
  have "sint (f * 65536) = signed_take_bit 31 (sint f * 65536)"
    by (simp add: sint_word_mult)
  also have "\<dots> = sint f * 65536"
    using assms by (intro signed_take_bit_int_eq_self) simp_all
  finally show ?thesis .
qed

lemma sdiv_nonneg:
  fixes a b :: int
  assumes "0 \<le> a" "0 < b"
  shows "a sdiv b = a div b"
  using assms by (cases "a = 0") (simp_all add: signed_divide_int_def)

lemma uint_compute_phaseInc:
  fixes f t :: "32 word"
  assumes "0 \<le> sint f" "sint f < 32768" "0 < sint t"
  shows "uint (compute_phaseInc f t) = (sint f * 65536 div sint t) mod 65536"
proof -
  have q: "long_div (f * 65536) t = word_of_int (sint f * 65536 div sint t)"
    using assms by (simp add: long_div_def sint_mul_65536 sdiv_nonneg)
  show ?thesis
    unfolding compute_phaseInc_def q
    by (simp add: unsigned_ucast_eq take_bit_eq_mod uint_word_of_int mod_mod_cancel)
qed

subsection \<open>What main leaves behind\<close>

lemma phaseInc_main_with: "phaseInc (main_with io f t s) = compute_phaseInc f t"
  by (simp add: main_with_def)

lemma SINE_TABLE_main_with: "SINE_TABLE (main_with io f t s) = SINE_TABLE s"
  by (simp add: main_with_def)

lemma phaseReg_main_with: "phaseReg (main_with io f t s) = 0"
  by (simp add: main_with_def)

lemma compute_phaseInc_configured: "compute_phaseInc F_DDS_OUT F_UPDATE = 3276"
  by (simp add: compute_phaseInc_def long_div_def F_DDS_OUT_def F_UPDATE_def signed_divide_int_def)

subsection \<open>The service routine on a table of 256 entries\<close>

lemma length_SINE_TABLE_init: "length SINE_TABLE_init = 256"
  by (simp add: SINE_TABLE_init_def)

lemma unat_table_index: "unat (table_index p) = unat p div 256"
proof -
  have "unat p < 65536" using unsigned_less [of p, where 'a = nat] by simp
  then have "unat p div 256 < 256" by simp
  then show ?thesis
    unfolding table_index_def unsigned_ucast_eq unat_drop_bit_eq
    by (simp add: drop_bit_eq_div take_bit_nat_eq_self)
qed

lemma table_index_lt: "unat (table_index p) < 256"
  using unsigned_less [of "table_index p", where 'a = nat] by simp

lemma ISR_Some:
  assumes "length (SINE_TABLE s) = 256"
  shows "ISR_TIMER2_COMPA s =
    Some (s\<lparr>phaseReg := phaseReg s + phaseInc s,
            OCR0A := SINE_TABLE s ! unat (table_index (phaseReg s + phaseInc s))\<rparr>)"
  using assms table_index_lt [of "phaseReg s + phaseInc s"]
  by (simp add: ISR_TIMER2_COMPA_def Let_def)


lemma ticks_Some:
  assumes "length (SINE_TABLE s) = 256"
  shows "\<exists>s'. ticks n s = Some s' \<and> phaseReg s' = phaseReg s + of_nat n * phaseInc s
    \<and> s' = s\<lparr>phaseReg := phaseReg s', OCR0A := OCR0A s'\<rparr>"
  using assms
proof (induction n arbitrary: s)
  case 0
  then show ?case by simp
next
  case (Suc n)
  let ?s1 = "s\<lparr>phaseReg := phaseReg s + phaseInc s,
            OCR0A := SINE_TABLE s ! unat (table_index (phaseReg s + phaseInc s))\<rparr>"
  have len: "length (SINE_TABLE ?s1) = 256" using Suc.prems by simp
  from Suc.IH [OF len] obtain s' where
    s': "ticks n ?s1 = Some s'" "phaseReg s' = phaseReg ?s1 + of_nat n * phaseInc ?s1"
      "s' = ?s1\<lparr>phaseReg := phaseReg s', OCR0A := OCR0A s'\<rparr>"
    by blast
  have "ticks (Suc n) s = Some s'"
    using s'(1) by (simp add: ISR_Some [OF Suc.prems])
  moreover have "phaseReg s' = phaseReg s + of_nat (Suc n) * phaseInc s"
    using s'(2) by (simp add: algebra_simps)
  moreover have "s' = s\<lparr>phaseReg := phaseReg s', OCR0A := OCR0A s'\<rparr>"
    by (subst s'(3)) simp
  ultimately show ?case by blast
qed

lemma SINE_TABLE_init_halves:
  "list_all2 (\<lambda>a b. unat a + unat b = 255)
     (take 128 SINE_TABLE_init) (drop 128 SINE_TABLE_init)"
  by (simp add: SINE_TABLE_init_def)

subsection \<open>The phase after a number of ticks\<close>

lemma period_times_inc:
  fixes w :: "16 word"
  shows "word_of_nat (65536 div gcd 65536 (unat w)) * w = 0"
proof -
  define g where "g = gcd (65536 :: nat) (unat w)"
  have g: "g dvd 65536" "g dvd unat w" by (simp_all add: g_def)
  have "65536 div g * unat w = 65536 * (unat w div g)"
    using g by (metis div_mult_swap dvd_div_mult)
  then have "(2 :: nat) ^ LENGTH(16) dvd 65536 div g * unat w"
    by simp
  then have "(word_of_nat (65536 div g * unat w) :: 16 word) = 0"
    by (simp only: word_of_nat_eq_0_iff)
  then show ?thesis
    by (simp add: g_def)
qed

lemma ticks_phaseReg:
  assumes "length (SINE_TABLE s) = 256"
  shows "map_option phaseReg (ticks n s) = Some (phaseReg s + of_nat n * phaseInc s)"
  using ticks_Some [OF assms, of n] by auto

lemma ticks_frame:
  assumes "length (SINE_TABLE s) = 256"
  shows "map_option (\<lambda>s'. s'\<lparr>phaseReg := phaseReg s, OCR0A := OCR0A s\<rparr>) (ticks n s) = Some s"
proof -
  from ticks_Some [OF assms, of n] obtain s' where
    s': "ticks n s = Some s'" "s' = s\<lparr>phaseReg := phaseReg s', OCR0A := OCR0A s'\<rparr>"
    by blast
  have "s'\<lparr>phaseReg := phaseReg s, OCR0A := OCR0A s\<rparr> = s"
    by (subst s'(2)) simp
  then show ?thesis
    using s'(1) by simp
qed

subsection \<open>The state that main leaves on the ATmega328P\<close>

lemma length_main: "length (SINE_TABLE (main atmega328p_16MHz startup_state)) = 256"
  by (simp add: main_def SINE_TABLE_main_with startup_state_def length_SINE_TABLE_init)

lemma phaseInc_main: "phaseInc (main io s) = 3276"
  by (simp add: main_def phaseInc_main_with compute_phaseInc_configured)

lemma phaseReg_main: "phaseReg (main io s) = 0"
  by (simp add: main_def phaseReg_main_with)

subsection \<open>The error of a truncated quotient\<close>

lemma quotient_error:
  fixes F T :: int
  assumes "0 \<le> F" and "0 < T"
  shows "\<bar>real_of_int (F * 65536 div T) * real_of_int T / 2 ^ 16 - real_of_int F\<bar>
           \<le> real_of_int T / 2 ^ 16"
proof -
  define q where "q = F * 65536 div T"
  define r where "r = F * 65536 mod T"
  have r: "0 \<le> r" "r < T" using assms by (simp_all add: r_def)
  have "q * T + r = F * 65536" by (simp add: q_def r_def)
  then have "real_of_int (q * T + r) = real_of_int (F * 65536)" by simp
  then have "real_of_int q * real_of_int T / 2 ^ 16 - real_of_int F = - real_of_int r / 2 ^ 16"
    by (simp add: field_simps)
  moreover have "\<bar>- real_of_int r / 2 ^ 16\<bar> \<le> real_of_int T / 2 ^ 16"
    using r by (simp add: divide_right_mono)
  ultimately show ?thesis
    by (simp add: q_def)
qed

section \<open>The claims\<close>

subsection \<open>C1: the phase increment\<close>

text \<open>
  Claim C1, as the code has it: the phase increment is the quotient of C's integer
  division, that is \<open>floor (F_out * 2^16 / F_tick)\<close> for a non-negative output
  frequency below 32768 and a positive tick rate (where the 32-bit product does not
  overflow), reduced modulo \<open>2^16\<close> by the store into the 16-bit \<open>phaseInc\<close>. No
  rounding to nearest takes place. With the macros of the source (2500 and 50000) the
  increment that \<open>main\<close> stores is 3276.
\<close>

theorem C1_phaseInc_truncates:
  assumes "0 \<le> sint f" and "sint f < 32768" and "0 < sint t"
  shows "uint (phaseInc (main_with io f t s))
           = \<lfloor>real_of_int (sint f) * 2 ^ 16 / real_of_int (sint t)\<rfloor> mod 2 ^ 16
         \<and> phaseInc (main io s) = 3276"
proof -
  have "\<lfloor>real_of_int (sint f) * 2 ^ 16 / real_of_int (sint t)\<rfloor>
          = \<lfloor>real_of_int (sint f * 65536) / real_of_int (sint t)\<rfloor>"
    by simp
  also have "\<dots> = sint f * 65536 div sint t"
    by (rule floor_divide_of_int_eq)
  finally show ?thesis
    using uint_compute_phaseInc [OF assms]
    by (simp add: phaseInc_main_with main_def compute_phaseInc_configured)
qed

text \<open>The theorem at the macros of the source, on the ATmega328P at 16 MHz.\<close>

theorem C1_phaseInc_truncates_witness:
  "0 \<le> sint F_DDS_OUT \<and> sint F_DDS_OUT < 32768 \<and> 0 < sint F_UPDATE
   \<and> uint (phaseInc (main_with atmega328p_16MHz F_DDS_OUT F_UPDATE startup_state))
        = \<lfloor>real_of_int (sint F_DDS_OUT) * 2 ^ 16 / real_of_int (sint F_UPDATE)\<rfloor> mod 2 ^ 16
   \<and> phaseInc (main atmega328p_16MHz startup_state) = 3276"
proof -
  have h: "0 \<le> sint F_DDS_OUT" "sint F_DDS_OUT < 32768" "0 < sint F_UPDATE"
    by (simp_all add: F_DDS_OUT_def F_UPDATE_def)
  show ?thesis
    using h C1_phaseInc_truncates [OF h, of atmega328p_16MHz startup_state] by simp
qed

text \<open>
  C1 as the specification words it fails on the program as it is: \<open>2500 * 65536 / 50000\<close>
  is 3276.8, which rounds to 3277, and \<open>main\<close> stores 3276.
\<close>

theorem C1_counterexample:
  "uint (phaseInc (main atmega328p_16MHz startup_state))
     \<noteq> round (real_of_int (sint F_DDS_OUT) * 2 ^ 16 / real_of_int (sint F_UPDATE))
   \<and> phaseInc (main atmega328p_16MHz startup_state) \<noteq> 3277"
proof -
  have r: "round (2500 * 65536 / 50000 :: real) = 3277"
    by (simp add: round_def)
  have p: "phaseInc (main atmega328p_16MHz startup_state) = 3276"
    by (simp add: main_def phaseInc_main_with compute_phaseInc_configured)
  have c: "sint F_DDS_OUT = 2500" "sint F_UPDATE = 50000"
    by (simp_all add: F_DDS_OUT_def F_UPDATE_def)
  show ?thesis
    unfolding p c using r by simp
qed

subsection \<open>C2: no configuration is rejected\<close>

text \<open>
  Claim C2, as the code has it: \<open>main\<close> validates nothing. For every output frequency
  with \<open>0 \<le> F_out < 32768\<close> and every positive tick rate (the pairs on which the
  divisions of lines 97 and 101 and the product of line 101 are defined) it runs to the
  idle loop with the timer interrupt and the global interrupt flag enabled, the phase at
  0 and the increment \<open>floor (F_out * 2^16 / F_tick) mod 2^16\<close> whatever its value: an
  increment of zero and an output frequency above half the tick rate are accepted like
  any other.
\<close>

theorem C2_no_configuration_rejected:
  assumes "0 \<le> sint f" and "sint f < 32768" and "0 < sint t"
  shows "SREG_I (main_with io f t s)
   \<and> TIMSK2 (main_with io f t s) = BV (OCIE2A io)
   \<and> phaseReg (main_with io f t s) = 0
   \<and> uint (phaseInc (main_with io f t s)) = sint f * 65536 div sint t mod 65536"
proof -
  have "SREG_I (main_with io f t s)"
    and "TIMSK2 (main_with io f t s) = BV (OCIE2A io)"
    and "phaseReg (main_with io f t s) = 0"
    by (simp_all add: main_with_def)
  moreover have "uint (phaseInc (main_with io f t s)) = sint f * 65536 div sint t mod 65536"
    unfolding phaseInc_main_with by (rule uint_compute_phaseInc [OF assms])
  ultimately show ?thesis
    by blast
qed

text \<open>
  The theorem at 1 Hz with a tick rate of 100000 Hz, where the increment is zero, and at
  30000 Hz with a tick rate of 50000 Hz, above half the tick rate.
\<close>

theorem C2_no_configuration_rejected_witness:
  "0 \<le> sint (1 :: 32 word) \<and> sint (1 :: 32 word) < 32768 \<and> 0 < sint (100000 :: 32 word)
   \<and> SREG_I (main_with atmega328p_16MHz 1 100000 startup_state)
   \<and> TIMSK2 (main_with atmega328p_16MHz 1 100000 startup_state) = 2
   \<and> phaseReg (main_with atmega328p_16MHz 1 100000 startup_state) = 0
   \<and> uint (phaseInc (main_with atmega328p_16MHz 1 100000 startup_state)) = 0
   \<and> 0 \<le> sint (30000 :: 32 word) \<and> sint (30000 :: 32 word) < 32768
   \<and> 0 < sint (50000 :: 32 word)
   \<and> SREG_I (main_with atmega328p_16MHz 30000 50000 startup_state)
   \<and> uint (phaseInc (main_with atmega328p_16MHz 30000 50000 startup_state)) = 39321"
proof -
  have lo: "0 \<le> sint (1 :: 32 word)" "sint (1 :: 32 word) < 32768" "0 < sint (100000 :: 32 word)"
    by simp_all
  have hi: "0 \<le> sint (30000 :: 32 word)" "sint (30000 :: 32 word) < 32768"
    "0 < sint (50000 :: 32 word)"
    by simp_all
  have b: "BV (OCIE2A atmega328p_16MHz) = 2"
    by (simp add: BV_def atmega328p_16MHz_def)
  show ?thesis
    using lo hi C2_no_configuration_rejected [OF lo, of atmega328p_16MHz startup_state]
      C2_no_configuration_rejected [OF hi, of atmega328p_16MHz startup_state]
    by (simp add: b)
qed

text \<open>
  C2 as the specification words it fails: 1 Hz at a tick rate of 100000 Hz gives the
  increment 0, and 30000 Hz at 50000 Hz is above half the tick rate; both configurations
  reach the running state.
\<close>

theorem C2_counterexample:
  "phaseInc (main_with atmega328p_16MHz 1 100000 startup_state) = 0
   \<and> SREG_I (main_with atmega328p_16MHz 1 100000 startup_state)
   \<and> (50000 :: real) / 2 < 30000
   \<and> phaseInc (main_with atmega328p_16MHz 30000 50000 startup_state) = 39321
   \<and> SREG_I (main_with atmega328p_16MHz 30000 50000 startup_state)"
  by (simp add: main_with_def compute_phaseInc_def long_div_def signed_divide_int_def)

subsection \<open>C3: the symmetry of the table\<close>

text \<open>
  Claim C3, as the code has it: the two halves of the table are complements in the 8-bit
  range, \<open>table[i] + table[N/2 + i] = 255\<close> for every \<open>i < N/2\<close> (the table is centred
  on 127.5, not on 128). The table has \<open>N = 256\<close> entries and its index is an 8-bit
  value, so index \<open>N + k\<close> denotes entry \<open>k\<close>.
\<close>

theorem C3_table_symmetry:
  assumes "i < 256 div 2"
  shows "unat (SINE_TABLE_init ! i) + unat (SINE_TABLE_init ! (256 div 2 + i)) = 255
    \<and> length SINE_TABLE_init = 256
    \<and> SINE_TABLE_init ! unat (word_of_nat (256 + k) :: 8 word)
        = SINE_TABLE_init ! unat (word_of_nat k :: 8 word)"
proof -
  have i: "i < 128" using assms by simp
  have "unat (take 128 SINE_TABLE_init ! i) + unat (drop 128 SINE_TABLE_init ! i) = 255"
    using list_all2_nthD [OF SINE_TABLE_init_halves, of i] i
    by (simp add: length_SINE_TABLE_init)
  then have sym: "unat (SINE_TABLE_init ! i) + unat (SINE_TABLE_init ! (256 div 2 + i)) = 255"
    using i by (simp add: length_SINE_TABLE_init)
  have wrap: "unat (word_of_nat (256 + k) :: 8 word) = unat (word_of_nat k :: 8 word)"
    unfolding unat_of_nat by simp
  show ?thesis
    using sym length_SINE_TABLE_init by (simp only: wrap)
qed

text \<open>The theorem at the first entry.\<close>

theorem C3_table_symmetry_witness:
  "(0 :: nat) < 256 div 2
   \<and> unat (SINE_TABLE_init ! 0) + unat (SINE_TABLE_init ! (256 div 2 + 0)) = 255
   \<and> length SINE_TABLE_init = 256
   \<and> SINE_TABLE_init ! unat (word_of_nat (256 + 0) :: 8 word)
        = SINE_TABLE_init ! unat (word_of_nat 0 :: 8 word)"
  using C3_table_symmetry [of 0 0] by simp

text \<open>
  C3 as the specification words it fails at the first entry: \<open>table[0] = 128\<close> and
  \<open>table[128] = 127\<close>, whose sum is 255 and not \<open>2 * 128\<close>.
\<close>

theorem C3_counterexample:
  "unat (SINE_TABLE_init ! 0) + unat (SINE_TABLE_init ! (256 div 2 + 0)) \<noteq> 2 * 128"
  by (simp add: SINE_TABLE_init_def)

subsection \<open>C4: the period of the phase accumulator\<close>

text \<open>
  Claim C4, as the code has it: for every starting phase and every increment, serving
  exactly \<open>2^16 / gcd (2^16, increment)\<close> ticks brings the phase accumulator back to
  its starting value; for the configured increment 3276 that is 16384 ticks. After
  \<open>round (2^16 / 3276) = 20\<close> ticks the accumulator is 16 below its starting value
  (modulo \<open>2^16\<close>), since \<open>20 * 3276 = 65520\<close>.
\<close>

theorem C4_period:
  assumes "length (SINE_TABLE s) = 256"
  shows "map_option phaseReg (ticks (2 ^ 16 div gcd (2 ^ 16) (unat (phaseInc s))) s)
           = Some (phaseReg s)
    \<and> (phaseInc s = 3276 \<longrightarrow>
         map_option phaseReg (ticks 16384 s) = Some (phaseReg s)
         \<and> map_option phaseReg (ticks 20 s) = Some (phaseReg s - 16))"
proof -
  have "map_option phaseReg (ticks (65536 div gcd 65536 (unat (phaseInc s))) s)
          = Some (phaseReg s)"
    unfolding ticks_phaseReg [OF assms] period_times_inc by simp
  then show ?thesis
    by (simp add: ticks_phaseReg [OF assms])
qed

text \<open>
  The theorem at the state that \<open>main\<close> leaves behind.
\<close>

theorem C4_period_witness:
  "length (SINE_TABLE (main atmega328p_16MHz startup_state)) = 256
   \<and> phaseInc (main atmega328p_16MHz startup_state) = 3276
   \<and> map_option phaseReg (ticks 16384 (main atmega328p_16MHz startup_state))
       = Some (phaseReg (main atmega328p_16MHz startup_state))
   \<and> map_option phaseReg (ticks 20 (main atmega328p_16MHz startup_state))
       = Some (phaseReg (main atmega328p_16MHz startup_state) - 16)"
  using C4_period [OF length_main] length_main phaseInc_main [of atmega328p_16MHz startup_state]
  by blast

text \<open>
  C4 as the specification words it fails on the program as it is: from the state that
  \<open>main\<close> leaves, with phase 0 and increment 3276, the phase after
  \<open>round (65536 / 3276) = 20\<close> ticks is 65520 and not 0.
\<close>

theorem C4_counterexample:
  "map_option phaseReg
     (ticks (nat (round (2 ^ 16 / real (unat (phaseInc (main atmega328p_16MHz startup_state))))))
        (main atmega328p_16MHz startup_state))
   \<noteq> Some (phaseReg (main atmega328p_16MHz startup_state))"
proof -
  have r: "nat (round (65536 / 3276 :: real)) = 20"
    by (simp add: round_def)
  show ?thesis
    unfolding ticks_phaseReg [OF length_main] phaseInc_main phaseReg_main
    using r by simp
qed

subsection \<open>C5: one tick\<close>



subsection \<open>C6: the advance wraps\<close>

text \<open>
  Claim C6: for every current phase and increment the handler completes and leaves the
  phase accumulator at \<open>(phase + increment) mod 2^16\<close>: overflow wraps, it neither
  saturates nor fails.
\<close>

theorem C6_advance_wraps:
  assumes "length (SINE_TABLE s) = 256"
  shows "map_option (\<lambda>s'. unat (phaseReg s')) (ISR_TIMER2_COMPA s)
           = Some ((unat (phaseReg s) + unat (phaseInc s)) mod 2 ^ 16)"
  using assms by (simp add: ISR_Some unat_word_ariths)

text \<open>
  The theorem at a phase that overflows: \<open>65535 + 3276\<close> wraps to 3275.
\<close>

theorem C6_advance_wraps_witness:
  "length (SINE_TABLE (startup_state\<lparr>phaseReg := 65535, phaseInc := 3276\<rparr>)) = 256
   \<and> map_option (\<lambda>s'. unat (phaseReg s'))
        (ISR_TIMER2_COMPA (startup_state\<lparr>phaseReg := 65535, phaseInc := 3276\<rparr>)) = Some 3275"
proof -
  have len: "length (SINE_TABLE (startup_state\<lparr>phaseReg := 65535, phaseInc := 3276\<rparr>)) = 256"
    by (simp add: startup_state_def length_SINE_TABLE_init)
  show ?thesis
    using C6_advance_wraps [OF len] len by simp
qed

subsection \<open>C7: the table index\<close>

text \<open>
  Claim C7: for every phase value the table index is \<open>phase >> (16 - 8)\<close>, the upper
  eight bits of the accumulator, and lies in \<open>[0, 256)\<close>; so the lookup that the tick
  handler performs in a table of 256 entries is in bounds and the handler never reads
  outside the array.
\<close>

theorem C7_index_in_bounds:
  assumes "length (SINE_TABLE s) = 256"
  shows "unat (table_index p) = unat p div 2 ^ (16 - 8)
    \<and> unat (table_index p) < 256
    \<and> unat (table_index (phaseReg s + phaseInc s)) < length (SINE_TABLE s)
    \<and> ISR_TIMER2_COMPA s \<noteq> None"
  using assms table_index_lt [of p] table_index_lt [of "phaseReg s + phaseInc s"]
  by (simp add: unat_table_index ISR_Some)

text \<open>
  The theorem at the largest phase and at the state that \<open>main\<close> leaves behind.
\<close>

theorem C7_index_in_bounds_witness:
  "length (SINE_TABLE (main atmega328p_16MHz startup_state)) = 256
   \<and> unat (table_index 65535) = 255
   \<and> unat (table_index 65535) < 256
   \<and> ISR_TIMER2_COMPA (main atmega328p_16MHz startup_state) \<noteq> None"
  using C7_index_in_bounds [OF length_main, of 65535] length_main
  by simp

subsection \<open>C8: the quantisation bound\<close>

text \<open>
  Claim C8, as the code has it: for every output frequency with \<open>0 \<le> F_out < 32768\<close>
  (so that \<open>F_out * 65536\<close> fits the 32-bit \<open>long\<close> in which the program computes) and
  every tick rate with \<open>F_out < F_tick / 2\<close>, the frequency that the computed increment
  realises, \<open>increment * F_tick / 2^16\<close>, differs from \<open>F_out\<close> by at most
  \<open>F_tick / 2^16\<close>.
\<close>

theorem C8_quantization_bound:
  assumes "0 \<le> sint f" and "sint f < 32768"
    and "real_of_int (sint f) < real_of_int (sint t) / 2"
  shows "\<bar>real_of_int (uint (phaseInc (main_with io f t s))) * real_of_int (sint t) / 2 ^ 16
           - real_of_int (sint f)\<bar>
         \<le> real_of_int (sint t) / 2 ^ 16"
proof -
  have "real_of_int (2 * sint f) < real_of_int (sint t)"
    using assms(3) by (simp del: of_int_sint)
  then have lt: "2 * sint f < sint t"
    by (simp only: of_int_less_iff)
  then have t: "0 < sint t" using assms(1) by simp
  define q where "q = sint f * 65536 div sint t"
  have "0 \<le> sint f * 65536 mod sint t"
    using t by simp
  moreover have "q * sint t + sint f * 65536 mod sint t = sint f * 65536"
    by (simp add: q_def)
  ultimately have "q * sint t < 32768 * sint t"
    using lt by linarith
  then have "q < 32768"
    using t by (simp add: mult_less_cancel_right)
  moreover have "0 \<le> q"
    using assms(1) t by (simp add: q_def pos_imp_zdiv_nonneg_iff)
  ultimately have "uint (compute_phaseInc f t) = sint f * 65536 div sint t"
    using uint_compute_phaseInc [OF assms(1,2) t] by (simp add: q_def)
  then show ?thesis
    using quotient_error [OF assms(1) t] by (simp add: phaseInc_main_with)
qed

text \<open>
  The theorem at the macros of the source.
\<close>

theorem C8_quantization_bound_witness:
  "0 \<le> sint F_DDS_OUT \<and> sint F_DDS_OUT < 32768
   \<and> real_of_int (sint F_DDS_OUT) < real_of_int (sint F_UPDATE) / 2
   \<and> \<bar>real_of_int (uint (phaseInc (main_with atmega328p_16MHz F_DDS_OUT F_UPDATE startup_state)))
          * real_of_int (sint F_UPDATE) / 2 ^ 16 - real_of_int (sint F_DDS_OUT)\<bar>
       \<le> real_of_int (sint F_UPDATE) / 2 ^ 16"
proof -
  have h: "0 \<le> sint F_DDS_OUT" "sint F_DDS_OUT < 32768"
    "real_of_int (sint F_DDS_OUT) < real_of_int (sint F_UPDATE) / 2"
    by (simp_all add: F_DDS_OUT_def F_UPDATE_def)
  show ?thesis
    using h C8_quantization_bound [OF h, of atmega328p_16MHz startup_state] by blast
qed

text \<open>
  C8 as the specification words it, for every pair, fails where the product overflows:
  for 40000 Hz at a tick rate of 100000 Hz the 32-bit product \<open>40000 * 65536\<close> wraps
  to a negative value, the stored increment is 48801, and the realised frequency is
  about 74464 Hz.
\<close>

theorem C8_counterexample:
  "real_of_int (sint (40000 :: 32 word)) < real_of_int (sint (100000 :: 32 word)) / 2
   \<and> \<not> \<bar>real_of_int (uint (phaseInc (main_with atmega328p_16MHz 40000 100000 startup_state)))
            * real_of_int (sint (100000 :: 32 word)) / 2 ^ 16
          - real_of_int (sint (40000 :: 32 word))\<bar>
        \<le> real_of_int (sint (100000 :: 32 word)) / 2 ^ 16"
proof -
  have p: "compute_phaseInc 40000 100000 = 48801"
    by (simp add: compute_phaseInc_def long_div_def signed_divide_int_def)
  show ?thesis
    unfolding phaseInc_main_with p by simp
qed

subsection \<open>C9: what a tick leaves alone\<close>

text \<open>
  Claim C9: after any number of ticks, started in any state with the table at its 256
  entries (the state that \<open>main\<close> leaves among them), the table and the phase increment
  are what they were, and so is every register except the phase accumulator and the
  output compare register \<open>OCR0A\<close>: putting those two back gives the starting state.
\<close>

theorem C9_tick_frame:
  assumes "length (SINE_TABLE s) = 256"
  shows "map_option SINE_TABLE (ticks n s) = Some (SINE_TABLE s)
    \<and> map_option phaseInc (ticks n s) = Some (phaseInc s)
    \<and> map_option (\<lambda>s'. s'\<lparr>phaseReg := phaseReg s, OCR0A := OCR0A s\<rparr>) (ticks n s) = Some s"
proof -
  from ticks_Some [OF assms, of n] obtain s' where
    s': "ticks n s = Some s'" "s' = s\<lparr>phaseReg := phaseReg s', OCR0A := OCR0A s'\<rparr>"
    by blast
  have "SINE_TABLE s' = SINE_TABLE s" "phaseInc s' = phaseInc s"
    by (subst s'(2), simp)+
  then show ?thesis
    using s'(1) ticks_frame [OF assms, of n] by simp
qed

text \<open>
  The theorem at 1000 ticks after \<open>main\<close>.
\<close>

theorem C9_tick_frame_witness:
  "length (SINE_TABLE (main atmega328p_16MHz startup_state)) = 256
   \<and> map_option SINE_TABLE (ticks 1000 (main atmega328p_16MHz startup_state))
       = Some SINE_TABLE_init
   \<and> map_option phaseInc (ticks 1000 (main atmega328p_16MHz startup_state)) = Some 3276
   \<and> map_option (\<lambda>s'. s'\<lparr>phaseReg := phaseReg (main atmega328p_16MHz startup_state),
                          OCR0A := OCR0A (main atmega328p_16MHz startup_state)\<rparr>)
        (ticks 1000 (main atmega328p_16MHz startup_state))
       = Some (main atmega328p_16MHz startup_state)"
proof -
  have tab: "SINE_TABLE (main atmega328p_16MHz startup_state) = SINE_TABLE_init"
    by (simp add: main_def SINE_TABLE_main_with startup_state_def)
  show ?thesis
    using C9_tick_frame [OF length_main, of 1000] length_main
    unfolding tab phaseInc_main by blast
qed

subsection \<open>C10: the advance comes before the lookup\<close>

text \<open>
  Claim C10: on every tick the phase advance is performed, and stored, before the table
  lookup: the handler leaves the phase accumulator at
  \<open>(phase_before + increment) mod 2^16\<close> and the amplitude it emits is the table entry
  at the upper byte of that stored phase,
  \<open>table[((phase_before + increment) mod 2^16) >> 8]\<close>, not \<open>table[phase_before >> 8]\<close>.
  From the state that \<open>main\<close> leaves (phase 0, increment 3276, the table at its
  initialiser) the first tick leaves the phase at 3276 and emits
  \<open>table[3276 >> 8] = table[12] = 165\<close>, not the mid-scale entry \<open>table[0] = 128\<close>.
\<close>

theorem C10_advance_before_lookup:
  assumes "length (SINE_TABLE s) = 256"
  shows "(\<exists>s'. ISR_TIMER2_COMPA s = Some s'
            \<and> phaseReg s' = phaseReg s + phaseInc s
            \<and> unat (phaseReg s') = (unat (phaseReg s) + unat (phaseInc s)) mod 2 ^ 16
            \<and> OCR0A s' = SINE_TABLE s ! (unat (phaseReg s') div 2 ^ 8))
    \<and> map_option OCR0A (ISR_TIMER2_COMPA s)
           = Some (SINE_TABLE s ! (((unat (phaseReg s) + unat (phaseInc s)) mod 2 ^ 16) div 2 ^ 8))
    \<and> (SINE_TABLE s = SINE_TABLE_init \<longrightarrow>
         map_option phaseReg (ISR_TIMER2_COMPA (main io s)) = Some 3276
         \<and> unat (table_index (phaseInc (main io s))) = 12
         \<and> map_option OCR0A (ISR_TIMER2_COMPA (main io s)) = Some (SINE_TABLE_init ! 12)
         \<and> SINE_TABLE_init ! 12 = 165 \<and> SINE_TABLE_init ! 0 = 128)"
proof -
  have len: "length (SINE_TABLE (main io s)) = 256"
    using assms by (simp add: main_def SINE_TABLE_main_with)
  have i: "unat (table_index (3276 :: 16 word)) = 12"
    by (simp add: unat_table_index)
  have v: "SINE_TABLE_init ! 12 = 165" "SINE_TABLE_init ! 0 = 128"
    by (simp_all add: SINE_TABLE_init_def)
  have step: "\<exists>s'. ISR_TIMER2_COMPA s = Some s'
            \<and> phaseReg s' = phaseReg s + phaseInc s
            \<and> unat (phaseReg s') = (unat (phaseReg s) + unat (phaseInc s)) mod 2 ^ 16
            \<and> OCR0A s' = SINE_TABLE s ! (unat (phaseReg s') div 2 ^ 8)"
    using assms by (simp add: ISR_Some unat_table_index unat_word_ariths)
  have out: "map_option OCR0A (ISR_TIMER2_COMPA s)
           = Some (SINE_TABLE s ! (((unat (phaseReg s) + unat (phaseInc s)) mod 2 ^ 16) div 2 ^ 8))"
    using assms by (simp add: ISR_Some unat_table_index unat_word_ariths)
  have first_phase: "map_option phaseReg (ISR_TIMER2_COMPA (main io s)) = Some 3276"
    by (simp add: ISR_Some [OF len] phaseReg_main phaseInc_main)
  have first_out: "SINE_TABLE s = SINE_TABLE_init \<Longrightarrow>
      map_option OCR0A (ISR_TIMER2_COMPA (main io s)) = Some (SINE_TABLE_init ! 12)"
    by (simp add: ISR_Some [OF len] phaseInc_main phaseReg_main i)
      (simp add: main_def SINE_TABLE_main_with)
  have idx: "unat (table_index (phaseInc (main io s))) = 12"
    by (simp add: phaseInc_main i)
  show ?thesis
    using step out first_phase first_out idx v by blast
qed

text \<open>
  The theorem at the start-up state on the ATmega328P.
\<close>

theorem C10_advance_before_lookup_witness:
  "length (SINE_TABLE startup_state) = 256
   \<and> SINE_TABLE startup_state = SINE_TABLE_init
   \<and> map_option phaseReg (ISR_TIMER2_COMPA (main atmega328p_16MHz startup_state)) = Some 3276
   \<and> map_option OCR0A (ISR_TIMER2_COMPA (main atmega328p_16MHz startup_state))
       = Some (SINE_TABLE_init ! 12)
   \<and> SINE_TABLE_init ! 12 = 165 \<and> SINE_TABLE_init ! 0 = 128"
proof -
  have len: "length (SINE_TABLE startup_state) = 256"
    by (simp add: startup_state_def length_SINE_TABLE_init)
  have tab: "SINE_TABLE startup_state = SINE_TABLE_init"
    by (simp add: startup_state_def)
  show ?thesis
    using C10_advance_before_lookup [OF len, of atmega328p_16MHz] len tab by blast
qed

end
